theory Spec2Isabelle
  imports Main "HOL-Library.Multiset"
begin

section \<open>Python strings\<close>

text \<open>
  A Python \<open>str\<close> is a sequence of Unicode code points; the queries and the synonym table
  of the assistant contain Cyrillic text, so a character is modelled by its code point
  and a string by the list of its code points. \<open>py_str\<close> embeds an ASCII literal.
\<close>

type_synonym ustr = "nat list"

definition py_str :: "string \<Rightarrow> ustr" where
  "py_str s = map (of_char :: char \<Rightarrow> nat) s"

text \<open>
  \<open>str.isspace\<close> for one character: the complete list of the code points that Python 3
  treats as whitespace in \<open>str.split()\<close> and \<open>str.strip()\<close>.
\<close>

definition isspace_cp :: "nat \<Rightarrow> bool" where
  "isspace_cp c =
     ((9 \<le> c \<and> c \<le> 13) \<or> (28 \<le> c \<and> c \<le> 32) \<or> c = 0x85 \<or> c = 0xA0 \<or> c = 0x1680
      \<or> (0x2000 \<le> c \<and> c \<le> 0x200A) \<or> c = 0x2028 \<or> c = 0x2029 \<or> c = 0x202F
      \<or> c = 0x205F \<or> c = 0x3000)"

text \<open>
  \<open>str.lower\<close> and \<open>str.isalnum\<close> for one character. The Unicode tables are written out
  for Basic Latin, the Latin-1 Supplement, Cyrillic (U+0400..U+04FF) and the Cyrillic
  Supplement (U+0500..U+052F), where they agree with CPython 3.11; every other code point
  is caseless and not alphanumeric in this model.
\<close>

definition lower_cp :: "nat \<Rightarrow> nat" where
  "lower_cp c =
     (if (0x41 \<le> c \<and> c \<le> 0x5A) \<or> (0xC0 \<le> c \<and> c \<le> 0xDE \<and> c \<noteq> 0xD7)
         \<or> (0x410 \<le> c \<and> c \<le> 0x42F) then c + 32
      else if 0x400 \<le> c \<and> c \<le> 0x40F then c + 80
      else if c = 0x4C0 then 0x4CF
      else if ((0x460 \<le> c \<and> c \<le> 0x481) \<or> (0x48A \<le> c \<and> c \<le> 0x4BF)
               \<or> (0x4D0 \<le> c \<and> c \<le> 0x52F)) \<and> even c then c + 1
      else if 0x4C1 \<le> c \<and> c \<le> 0x4CE \<and> odd c then c + 1
      else c)"

definition isalnum_cp :: "nat \<Rightarrow> bool" where
  "isalnum_cp c =
     ((0x30 \<le> c \<and> c \<le> 0x39) \<or> (0x41 \<le> c \<and> c \<le> 0x5A) \<or> (0x61 \<le> c \<and> c \<le> 0x7A)
      \<or> c = 0xAA \<or> c = 0xB2 \<or> c = 0xB3 \<or> c = 0xB5 \<or> c = 0xB9 \<or> c = 0xBA
      \<or> (0xBC \<le> c \<and> c \<le> 0xBE)
      \<or> (0xC0 \<le> c \<and> c \<le> 0xFF \<and> c \<noteq> 0xD7 \<and> c \<noteq> 0xF7)
      \<or> (0x400 \<le> c \<and> c \<le> 0x481) \<or> (0x48A \<le> c \<and> c \<le> 0x52F))"

definition str_lower :: "ustr \<Rightarrow> ustr" where
  "str_lower s = map lower_cp s"

text \<open>
  \<open>s.split()\<close> without a separator: the maximal runs of non-whitespace characters.
  \<open>split_from cur s\<close> scans \<open>s\<close> with the token \<open>cur\<close> read so far.
\<close>

fun split_from :: "ustr \<Rightarrow> ustr \<Rightarrow> ustr list" where
  "split_from cur [] = (if cur = [] then [] else [cur])"
| "split_from cur (c # cs) =
     (if isspace_cp c then (if cur = [] then split_from [] cs else cur # split_from [] cs)
      else split_from (cur @ [c]) cs)"

definition str_split :: "ustr \<Rightarrow> ustr list" where
  "str_split s = split_from [] s"

text \<open>\<open>s.strip()\<close> removes leading and trailing whitespace.\<close>

definition str_strip :: "ustr \<Rightarrow> ustr" where
  "str_strip s = rev (dropWhile isspace_cp (rev (dropWhile isspace_cp s)))"

text \<open>\<open>sep.join(xs)\<close>.\<close>

fun str_join :: "ustr \<Rightarrow> ustr list \<Rightarrow> ustr" where
  "str_join sep [] = []"
| "str_join sep [x] = x"
| "str_join sep (x # y # ys) = x @ sep @ str_join sep (y # ys)"

text \<open>\<open>needle in haystack\<close> for two strings: a contiguous occurrence.\<close>

fun starts_with :: "'a list \<Rightarrow> 'a list \<Rightarrow> bool" where
  "starts_with s [] = True"
| "starts_with [] (p # ps) = False"
| "starts_with (c # cs) (p # ps) = (c = p \<and> starts_with cs ps)"



section \<open>Query preprocessor (\<open>preprocess_query_for_retrieval\<close>)\<close>

subsection \<open>Language detection\<close>

text \<open>
  The literal of line 500, the 33 lower-case letters of the Russian alphabet in the
  order of the source (U+0451, the letter io, stands after U+0435).
\<close>

definition russian_alphabet :: ustr where
  "russian_alphabet =
     [0x430, 0x431, 0x432, 0x433, 0x434, 0x435, 0x451, 0x436, 0x437, 0x438, 0x439,
      0x43A, 0x43B, 0x43C, 0x43D, 0x43E, 0x43F, 0x440, 0x441, 0x442, 0x443, 0x444,
      0x445, 0x446, 0x447, 0x448, 0x449, 0x44A, 0x44B, 0x44C, 0x44D, 0x44E, 0x44F]"

text \<open>\<open>is_russian = any(c in "..." for c in corrected_query.lower())\<close>\<close>

definition is_russian :: "ustr \<Rightarrow> bool" where
  "is_russian corrected_query =
     list_ex (\<lambda>c. c \<in> set russian_alphabet) (str_lower corrected_query)"

text \<open>
  The vocabulary of the specification: a letter of the Russian alphabet in either case,
  and a character of one of the Unicode blocks named Cyrillic.
\<close>

definition russian_letter :: "nat \<Rightarrow> bool" where
  "russian_letter c = ((0x410 \<le> c \<and> c \<le> 0x44F) \<or> c = 0x401 \<or> c = 0x451)"

definition cyrillic_cp :: "nat \<Rightarrow> bool" where
  "cyrillic_cp c =
     ((0x400 \<le> c \<and> c \<le> 0x52F) \<or> (0x1C80 \<le> c \<and> c \<le> 0x1C8F) \<or> (0x2DE0 \<le> c \<and> c \<le> 0x2DFF)
      \<or> (0xA640 \<le> c \<and> c \<le> 0xA69F) \<or> (0x1E030 \<le> c \<and> c \<le> 0x1E08F))"


subsection \<open>Translation through the completion endpoint (\<open>ask_llm_for_metadata\<close>)\<close>

text \<open>
  What the HTTP call of \<open>ask_llm_for_metadata\<close> can produce, one constructor for each
  branch the function distinguishes: a \<open>requests\<close> exception (connection, timeout, error
  status), an error while reading the reply (\<open>KeyError\<close>, \<open>IndexError\<close>,
  \<open>AttributeError\<close>), a reply without a usable first alternative, and the text of the
  first alternative's message.
\<close>

datatype llm_response =
    RequestException
  | ParsingError
  | UnexpectedStructure
  | MessageText ustr

text \<open>
  The global \<open>llm\<close> is either \<open>None\<close> or initialised; the completion endpoint answers
  a prompt text.
\<close>

record llm_service =
  llm_initialized :: bool
  completion :: "ustr \<Rightarrow> llm_response"

text \<open>
  \<open>full_prompt_text = f"{instruction_text}\\n\\n{prompt_content}"\<close>: the source writes
  doubled backslashes, so the separator is the four characters backslash, n, backslash, n.
\<close>

definition ask_llm_for_metadata :: "llm_service \<Rightarrow> ustr \<Rightarrow> ustr \<Rightarrow> ustr" where
  "ask_llm_for_metadata svc prompt_content instruction_text =
     (if \<not> llm_initialized svc then []
      else
        (case completion svc (instruction_text @ [0x5C, 0x6E, 0x5C, 0x6E] @ prompt_content) of
           RequestException \<Rightarrow> []
         | ParsingError \<Rightarrow> []
         | UnexpectedStructure \<Rightarrow> []
         | MessageText t \<Rightarrow> str_strip t))"

definition translation_instruction :: "bool \<Rightarrow> ustr" where
  "translation_instruction is_ru =
     (if is_ru
      then py_str ''Translate the following Russian text to English. Output only the translation: ''
      else py_str ''Translate the following English text to Russian. Output only the translation: '')"

subsection \<open>Synonym expansion\<close>

text \<open>
  \<open>config.SYNONYM_MAP\<close>: a dict iterates in insertion order, so the table is an
  association list in the order of the source. Entries with Cyrillic text are given by
  their code points.
\<close>

type_synonym synonym_map = "(ustr \<times> ustr list) list"

definition SYNONYM_MAP :: synonym_map where
  "SYNONYM_MAP =
    [(py_str ''course'',
        [py_str ''program'', py_str ''study plan'', py_str ''module'']),
     (py_str ''courses'',
        [py_str ''programs'', py_str ''study plans'', py_str ''modules'']),
     (py_str ''deadline'',
        [py_str ''due date'', py_str ''submission date'']),
     (py_str ''application'',
        [py_str ''admission'', py_str ''enrollment'']),
     (py_str ''GSOM'',
        [py_str ''Graduate School of Management'', py_str ''GSOM SPbU'', [0x412, 0x428, 0x41C]]),
     (py_str ''SPbU'',
        [py_str ''Saint Petersburg State University'', [0x421, 0x41F, 0x431, 0x413, 0x423]]),
     (py_str ''MiBA'',
        [py_str ''Master in Business Analytics and Big Data'', [0x41C, 0x438, 0x431, 0x430]]),
     (py_str ''ML'',
        [py_str ''Machine Learning'',
         [0x43C, 0x430, 0x448, 0x438, 0x43D, 0x43D, 0x43E, 0x435, 0x20,
          0x43E, 0x431, 0x443, 0x447, 0x435, 0x43D, 0x438, 0x435]]),
     (py_str ''AI'',
        [py_str ''Artificial Intelligence'',
         [0x438, 0x441, 0x43A, 0x443, 0x441, 0x441, 0x442, 0x432, 0x435, 0x43D, 0x43D, 0x44B,
          0x439, 0x20, 0x438, 0x43D, 0x442, 0x435, 0x43B, 0x43B, 0x435, 0x43A, 0x442]]),
     ([0x41C, 0x41B],
        [py_str ''Machine Learning'',
         [0x43C, 0x430, 0x448, 0x438, 0x43D, 0x43D, 0x43E, 0x435, 0x20,
          0x43E, 0x431, 0x443, 0x447, 0x435, 0x43D, 0x438, 0x435]]),
     ([0x418, 0x418],
        [py_str ''Artificial Intelligence'',
         [0x438, 0x441, 0x43A, 0x443, 0x441, 0x441, 0x442, 0x432, 0x435, 0x43D, 0x43D, 0x44B,
          0x439, 0x20, 0x438, 0x43D, 0x442, 0x435, 0x43B, 0x43B, 0x435, 0x43A, 0x442]]),
     (py_str ''exam'',
        [py_str ''examination'', py_str ''test'', py_str ''assessment'',
         [0x44D, 0x43A, 0x437, 0x430, 0x43C, 0x435, 0x43D], [0x442, 0x435, 0x441, 0x442]]),
     (py_str ''schedule'',
        [py_str ''timetable'', py_str ''academic calendar'',
         [0x440, 0x430, 0x441, 0x43F, 0x438, 0x441, 0x430, 0x43D, 0x438, 0x435],
         [0x43A, 0x430, 0x43B, 0x435, 0x43D, 0x434, 0x430, 0x440, 0x44C]]),
     ([0x440, 0x430, 0x441, 0x43F, 0x438, 0x441, 0x430, 0x43D, 0x438, 0x435],
        [py_str ''timetable'', py_str ''academic calendar'',
         [0x440, 0x430, 0x441, 0x43F, 0x438, 0x441, 0x430, 0x43D, 0x438, 0x435],
         [0x43A, 0x430, 0x43B, 0x435, 0x43D, 0x434, 0x430, 0x440, 0x44C]]),
     ([0x43E, 0x431, 0x43C, 0x435, 0x43D],
        [[0x432, 0x43A, 0x43B, 0x44E, 0x447, 0x435, 0x43D, 0x43D, 0x43E, 0x435, 0x20,
          0x43E, 0x431, 0x443, 0x447, 0x435, 0x43D, 0x438, 0x435],
         py_str ''included learning'',
         [0x43F, 0x440, 0x43E, 0x433, 0x440, 0x430, 0x43C, 0x43C, 0x430, 0x20,
          0x43E, 0x431, 0x43C, 0x435, 0x43D, 0x430],
         py_str ''outgoing'', py_str ''exchange'']),
     (py_str ''exchange program'',
        [py_str ''included learning'',
         [0x432, 0x43A, 0x43B, 0x44E, 0x447, 0x435, 0x43D, 0x43D, 0x43E, 0x435, 0x20,
          0x43E, 0x431, 0x443, 0x447, 0x435, 0x43D, 0x438, 0x435]]),
     (py_str ''practice'',
        [py_str ''practical training'', py_str ''internship'']),
     ([0x43F, 0x440, 0x430, 0x43A, 0x442, 0x438, 0x43A, 0x430],
        [py_str ''practical training'', py_str ''internship''])]"

text \<open>
  \<open>appended_synonyms\<close> is a Python \<open>set\<close>. Its elements are kept here in the order of
  insertion, without repetition; \<open>set.add\<close> leaves a set that already holds the element
  as it is. The order in which Python iterates over the set is not the order of
  insertion: it follows the hash values of the strings, which change from one process to
  the next. \<open>list(appended_synonyms)\<close> is therefore modelled by a parameter
  \<open>set_order\<close>, any function that rearranges the elements (\<open>iteration_order\<close>).
\<close>

definition set_add :: "ustr \<Rightarrow> ustr list \<Rightarrow> ustr list" where
  "set_add x xs = (if x \<in> set xs then xs else xs @ [x])"

definition iteration_order :: "(ustr list \<Rightarrow> ustr list) \<Rightarrow> ustr list \<Rightarrow> bool" where
  "iteration_order set_order xs = (mset (set_order xs) = mset xs)"

text \<open>The innermost loop, \<open>for syn in syn_list\<close> (lines 525 to 528).\<close>

fun add_synonyms :: "ustr list \<Rightarrow> ustr list \<Rightarrow> ustr list \<Rightarrow> ustr list" where
  "add_synonyms words_in_primary [] appended = appended"
| "add_synonyms words_in_primary (syn # syn_list) appended =
     add_synonyms words_in_primary syn_list
       (if str_lower syn \<notin> set words_in_primary
           \<and> str_lower syn \<notin> set (map str_lower appended)
        then set_add syn appended else appended)"

text \<open>The loop over the table, \<open>for map_key, syn_list in config.SYNONYM_MAP.items()\<close>.\<close>

fun scan_synonym_map :: "ustr list \<Rightarrow> ustr \<Rightarrow> synonym_map \<Rightarrow> ustr list \<Rightarrow> ustr list" where
  "scan_synonym_map words_in_primary cleaned_token_lower [] appended = appended"
| "scan_synonym_map words_in_primary cleaned_token_lower ((map_key, syn_list) # items) appended =
     scan_synonym_map words_in_primary cleaned_token_lower items
       (if str_lower map_key = cleaned_token_lower
        then add_synonyms words_in_primary syn_list appended else appended)"

text \<open>
  The outer loop, \<open>for token in primary_lang_query_part.split()\<close>, with
  \<open>cleaned_token_lower = ''.join(filter(str.isalnum, token)).lower()\<close>.
\<close>

definition cleaned_token_lower :: "ustr \<Rightarrow> ustr" where
  "cleaned_token_lower token = str_lower (filter isalnum_cp token)"

fun scan_tokens :: "synonym_map \<Rightarrow> ustr list \<Rightarrow> ustr list \<Rightarrow> ustr list \<Rightarrow> ustr list" where
  "scan_tokens m words_in_primary [] appended = appended"
| "scan_tokens m words_in_primary (token # tokens) appended =
     scan_tokens m words_in_primary tokens
       (scan_synonym_map words_in_primary (cleaned_token_lower token) m appended)"

text \<open>The set \<open>appended_synonyms\<close> when the three loops have run (line 530).\<close>

definition appended_synonyms :: "synonym_map \<Rightarrow> ustr \<Rightarrow> ustr list" where
  "appended_synonyms m primary_lang_query_part =
     scan_tokens m (str_split (str_lower primary_lang_query_part))
       (str_split primary_lang_query_part) []"

text \<open>
  \<open>expanded_primary_query = f"{primary_lang_query_part} {' '.join(list(appended_synonyms))}"\<close>
\<close>

definition expanded_primary_query :: "(ustr list \<Rightarrow> ustr list) \<Rightarrow> ustr \<Rightarrow> ustr list \<Rightarrow> ustr" where
  "expanded_primary_query set_order primary_lang_query_part appended =
     primary_lang_query_part @ [0x20] @ str_join [0x20] (set_order appended)"

text \<open>
  The synonym-expansion step on its own: the primary-language part of the query after
  lines 516 to 532.
\<close>

definition synonym_expansion :: "synonym_map \<Rightarrow> (ustr list \<Rightarrow> ustr list) \<Rightarrow> ustr \<Rightarrow> ustr" where
  "synonym_expansion m set_order q =
     (if m \<noteq> [] \<and> appended_synonyms m q \<noteq> []
      then expanded_primary_query set_order q (appended_synonyms m q) else q)"

subsection \<open>Composition of the final query\<close>

text \<open>\<open>f"{x}, {translated_text}" if translated_text else x\<close> (lines 512, 535 and 537).\<close>

definition with_translation :: "ustr \<Rightarrow> ustr \<Rightarrow> ustr" where
  "with_translation x translated_text =
     (if translated_text \<noteq> [] then x @ [0x2C, 0x20] @ translated_text else x)"

text \<open>
  The value of \<open>final_query_for_retrieval\<close> when line 540 is reached, for an
  initialised \<open>llm\<close>.
\<close>

definition final_query_for_retrieval ::
  "llm_service \<Rightarrow> synonym_map \<Rightarrow> (ustr list \<Rightarrow> ustr list) \<Rightarrow> ustr \<Rightarrow> ustr" where
  "final_query_for_retrieval svc m set_order user_query =
     (let corrected_query = user_query;
          is_ru = is_russian corrected_query;
          translated_text =
            ask_llm_for_metadata svc corrected_query (translation_instruction is_ru);
          translated_only = with_translation corrected_query translated_text
      in if m \<noteq> [] then
           (let primary_lang_query_part = corrected_query;
                appended = appended_synonyms m primary_lang_query_part
            in if appended \<noteq> [] then
                 (let expanded = expanded_primary_query set_order primary_lang_query_part appended
                  in if is_ru then with_translation expanded translated_text
                     else with_translation expanded translated_text)
               else translated_only)
         else translated_only)"

definition preprocess_query_for_retrieval ::
  "llm_service \<Rightarrow> synonym_map \<Rightarrow> (ustr list \<Rightarrow> ustr list) \<Rightarrow> ustr \<Rightarrow> ustr" where
  "preprocess_query_for_retrieval svc m set_order user_query =
     (if \<not> llm_initialized svc then user_query
      else
        (let composed = final_query_for_retrieval svc m set_order user_query;
             final = (if str_strip composed = [] then user_query else composed)
         in str_strip final))"

text \<open>
  Names for two values of a run of \<open>preprocess_query_for_retrieval\<close>: the prompt sent
  to the completion endpoint for the translation, and \<open>translated_text\<close>.
\<close>

definition translation_request :: "ustr \<Rightarrow> ustr" where
  "translation_request user_query =
     translation_instruction (is_russian user_query) @ [0x5C, 0x6E, 0x5C, 0x6E] @ user_query"

definition translation_of :: "llm_service \<Rightarrow> ustr \<Rightarrow> ustr" where
  "translation_of svc user_query =
     ask_llm_for_metadata svc user_query (translation_instruction (is_russian user_query))"

text \<open>
  The specification's account of the expansion step: the synonyms of the matching
  entries in the order in which the loops meet them, then those kept that are neither a
  word of the query nor already appended, compared in lower case, in that same order.
\<close>

definition encountered_synonyms :: "synonym_map \<Rightarrow> ustr \<Rightarrow> ustr list" where
  "encountered_synonyms m q =
     concat (map (\<lambda>token.
        concat (map snd (filter (\<lambda>item. str_lower (fst item) = cleaned_token_lower token) m)))
       (str_split q))"

fun keep_new :: "ustr list \<Rightarrow> ustr list \<Rightarrow> ustr list \<Rightarrow> ustr list" where
  "keep_new present [] kept = kept"
| "keep_new present (syn # syns) kept =
     keep_new present syns
       (if str_lower syn \<in> set present \<or> str_lower syn \<in> set (map str_lower kept)
        then kept else kept @ [syn])"

definition spec_appended :: "synonym_map \<Rightarrow> ustr \<Rightarrow> ustr list" where
  "spec_appended m q = keep_new (str_split (str_lower q)) (encountered_synonyms m q) []"


section \<open>Python exceptions\<close>

text \<open>
  The exception classes that the modelled functions meet. \<open>except Exception\<close> catches
  every class but the two that derive from \<open>BaseException\<close> directly.
\<close>

datatype py_exc =
    FileNotFoundError
  | IsADirectoryError
  | PermissionError
  | UnicodeDecodeError
  | JSONDecodeError
  | ValueError
  | ConnectionError
  | TelegramError
  | CancelledError
  | KeyboardInterrupt

definition is_Exception :: "py_exc \<Rightarrow> bool" where
  "is_Exception e = (e \<noteq> CancelledError \<and> e \<noteq> KeyboardInterrupt)"


section \<open>Credential loading (\<open>load_json_file\<close>)\<close>

datatype json =
    JNull
  | JBool bool
  | JNumber int
  | JString ustr
  | JArray "json list"
  | JObject "(ustr \<times> json) list"






section \<open>Hybrid retriever (\<open>OpenSearchHybridSearchRetriever\<close>)\<close>

record document =
  page_content :: ustr
  metadata :: "(ustr \<times> ustr) list"

text \<open>
  The vector store: the attribute \<open>is_hybrid_search\<close> may be absent
  (\<open>getattr(..., False)\<close>); the search reads it, so it is an argument of the search
  functions, before the query, \<open>k\<close> and the keyword arguments. The store may or may not
  have the coroutine \<open>asimilarity_search_with_score\<close> (\<open>hasattr\<close>). A search returns
  documents with scores or raises.
\<close>

type_synonym 'score search =
  "bool \<Rightarrow> ustr \<Rightarrow> nat \<Rightarrow> (string \<times> string) list \<Rightarrow> py_exc + (document \<times> 'score) list"

record 'score vectorstore =
  is_hybrid_search :: "bool option"
  similarity_search_with_score :: "'score search"
  asimilarity_search_with_score :: "'score search option"

record 'score retriever =
  vectorstore :: "'score vectorstore"
  k :: nat
  search_kwargs :: "(string \<times> string) list"

definition default_search_kwargs :: "(string \<times> string) list" where
  "default_search_kwargs =
     [(''fusion_algorithm'', ''rrf''), (''vector_search_weight'', ''0.5''),
      (''keyword_search_weight'', ''0.5'')]"

definition hybrid_flag :: "'score vectorstore \<Rightarrow> bool" where
  "hybrid_flag vs = (case is_hybrid_search vs of None \<Rightarrow> False | Some b \<Rightarrow> b)"

definition force_hybrid :: "'score vectorstore \<Rightarrow> 'score vectorstore" where
  "force_hybrid vs = (if \<not> hybrid_flag vs then vs\<lparr>is_hybrid_search := Some True\<rparr> else vs)"

text \<open>\<open>[doc for doc, score in results_with_scores]\<close> on the result of a search.\<close>

definition strip_scores :: "py_exc + (document \<times> 'score) list \<Rightarrow> py_exc + document list" where
  "strip_scores r = (case r of Inl e \<Rightarrow> Inl e | Inr results \<Rightarrow> Inr (map fst results))"

text \<open>\<open>except Exception as e: ... return []\<close>\<close>

definition except_Exception :: "py_exc + document list \<Rightarrow> py_exc + document list" where
  "except_Exception r =
     (case r of Inl e \<Rightarrow> if is_Exception e then Inr [] else Inl e | Inr docs \<Rightarrow> Inr docs)"

text \<open>
  Both entry points return what the caller receives (documents, or an exception that
  was not caught) and the retriever with the flag of its store set.
\<close>

definition get_relevant_documents ::
  "'score retriever \<Rightarrow> ustr \<Rightarrow> (py_exc + document list) \<times> 'score retriever" where
  "get_relevant_documents self query =
     (let vs = force_hybrid (vectorstore self)
      in (except_Exception
            (strip_scores
               (similarity_search_with_score vs (hybrid_flag vs) query (k self) (search_kwargs self))),
          self\<lparr>vectorstore := vs\<rparr>))"

definition aget_relevant_documents ::
  "'score retriever \<Rightarrow> ustr \<Rightarrow> (py_exc + document list) \<times> 'score retriever" where
  "aget_relevant_documents self query =
     (let vs = force_hybrid (vectorstore self)
      in (except_Exception
            (case asimilarity_search_with_score vs of
               Some asearch \<Rightarrow>
                 strip_scores (asearch (hybrid_flag vs) query (k self) (search_kwargs self))
             | None \<Rightarrow>
                 strip_scores
                   (similarity_search_with_score vs (hybrid_flag vs) query (k self)
                      (search_kwargs self))),
          self\<lparr>vectorstore := vs\<rparr>))"


section \<open>Answer prompt (\<open>initialize_rag_chain\<close>)\<close>




section \<open>Chat interface\<close>

datatype message = HumanMessage ustr | AIMessage ustr

type_synonym chat_id = int

record interaction =
  question :: ustr
  preprocessed_question :: ustr
  answer :: ustr
  contexts_docs :: "document list"
  answer_message_id :: nat
  feedback :: "ustr option"
  timestamp :: ustr

record ragas_item =
  item_interaction_id :: ustr
  item_question :: ustr
  item_preprocessed_question :: ustr
  item_answer :: ustr
  item_contexts :: "ustr list"
  item_retrieved_document_sources_keys :: "ustr list"
  item_chat_id :: chat_id
  item_timestamp :: ustr
  item_feedback :: "ustr option"

text \<open>
  The state the handlers share: the global \<open>user_chat_histories\<close>, for every chat the
  entry \<open>'interactions'\<close> of its \<open>context.chat_data\<close> (absent until the first answer),
  and the global \<open>ragas_data_pool\<close>.
\<close>

record bot_state =
  user_chat_histories :: "chat_id \<rightharpoonup> message list"
  interactions :: "chat_id \<Rightarrow> (ustr \<rightharpoonup> interaction) option"
  ragas_data_pool :: "ragas_item list"

definition initial_state :: bot_state where
  "initial_state =
     \<lparr>user_chat_histories = Map.empty, interactions = (\<lambda>c. None), ragas_data_pool = []\<rparr>"

text \<open>\<open>xs[-n:]\<close> for a positive \<open>n\<close>: the last \<open>n\<close> elements, the whole list when it is shorter.\<close>

definition last_n :: "nat \<Rightarrow> 'a list \<Rightarrow> 'a list" where
  "last_n n xs = drop (length xs - n) xs"

subsection \<open>\<open>start_command\<close>\<close>

definition start_command :: "bot_state \<Rightarrow> chat_id \<Rightarrow> bot_state" where
  "start_command st chat_id =
     st\<lparr>user_chat_histories := (user_chat_histories st)(chat_id \<mapsto> []),
        interactions := (interactions st)
          (chat_id := (case interactions st chat_id of None \<Rightarrow> None | Some t \<Rightarrow> Some Map.empty))\<rparr>"

subsection \<open>\<open>handle_text_message\<close>\<close>

text \<open>
  What \<open>rag_chain.ainvoke\<close> does with the preprocessed query and the history: it raises,
  or returns a response with its \<open>'answer'\<close> (possibly missing) and its \<open>'context'\<close>.
\<close>

datatype rag_result = RagRaised | RagResponse "ustr option" "document list"

text \<open>
  The calls to the Telegram API can fail; \<open>delivery\<close> says where the handler first meets
  a failure: at the message that announces processing (before the \<open>try\<close>), at the
  removal of that message or the reply with the answer (after the history update), at
  the reply with the buttons (after the interaction is recorded), or nowhere.
\<close>

datatype delivery = FailsAtProcessing | FailsAtAnswer | FailsAtButtons | Delivered

record turn_env =
  rag_chain :: "(ustr \<Rightarrow> message list \<Rightarrow> rag_result) option"
  llm :: llm_service
  synonyms :: synonym_map
  set_order :: "ustr list \<Rightarrow> ustr list"
  new_interaction_id :: ustr
  now :: ustr
  new_message_id :: nat
  delivery :: delivery

text \<open>
  \<open>doc.metadata.get('source_file_key', doc.metadata.get('source', 'unknown'))\<close>
\<close>

definition source_key :: "document \<Rightarrow> ustr" where
  "source_key doc =
     (case map_of (metadata doc) (py_str ''source_file_key'') of
        Some v \<Rightarrow> v
      | None \<Rightarrow>
          (case map_of (metadata doc) (py_str ''source'') of
             Some v \<Rightarrow> v
           | None \<Rightarrow> py_str ''unknown''))"

text \<open>
  The handler returns the state it leaves behind. Where \<open>rag_chain.ainvoke\<close> raises, the
  state is the same whether the \<open>except Exception\<close> clause catches the exception or not.
  \<open>preprocess_query_for_retrieval\<close> raises nothing in this model, so the \<open>except\<close> clause
  of lines 589 to 592 is never entered.
\<close>

definition default_answer :: ustr where
  "default_answer = py_str ''I couldn't find a specific answer based on the available information.''"

definition handle_text_message :: "turn_env \<Rightarrow> bot_state \<Rightarrow> chat_id \<Rightarrow> ustr \<Rightarrow> bot_state" where
  "handle_text_message env st chat_id user_query_original =
     (case rag_chain env of
        None \<Rightarrow> st
      | Some chain \<Rightarrow>
          (let st1 = (if user_chat_histories st chat_id = None
                      then st\<lparr>user_chat_histories := (user_chat_histories st)(chat_id \<mapsto> [])\<rparr>
                      else st);
               current_chat_history =
                 (case user_chat_histories st1 chat_id of None \<Rightarrow> [] | Some h \<Rightarrow> h)
           in if delivery env = FailsAtProcessing then st1
              else
                (let preprocessed_query =
                       preprocess_query_for_retrieval (llm env) (synonyms env) (set_order env)
                         user_query_original
                 in case chain preprocessed_query current_chat_history of
                      RagRaised \<Rightarrow> st1
                    | RagResponse response_answer retrieved_contexts_docs \<Rightarrow>
                        (let answer_text =
                               (case response_answer of None \<Rightarrow> default_answer | Some a \<Rightarrow> a);
                             extended = current_chat_history
                               @ [HumanMessage user_query_original, AIMessage answer_text];
                             st2 = st1\<lparr>user_chat_histories :=
                                     (user_chat_histories st1)(chat_id \<mapsto> last_n 20 extended)\<rparr>
                         in if delivery env = FailsAtAnswer then st2
                            else
                              (let table = (case interactions st2 chat_id of
                                              None \<Rightarrow> Map.empty | Some t \<Rightarrow> t);
                                   entry = \<lparr>question = user_query_original,
                                            preprocessed_question = preprocessed_query,
                                            answer = answer_text,
                                            contexts_docs = retrieved_contexts_docs,
                                            answer_message_id = new_message_id env,
                                            feedback = None,
                                            timestamp = now env\<rparr>;
                                   st3 = st2\<lparr>interactions := (interactions st2)
                                           (chat_id := Some (table(new_interaction_id env \<mapsto> entry)))\<rparr>
                               in if delivery env = FailsAtButtons then st3
                                  else st3\<lparr>ragas_data_pool := ragas_data_pool st3 @
                                         [\<lparr>item_interaction_id = new_interaction_id env,
                                           item_question = user_query_original,
                                           item_preprocessed_question = preprocessed_query,
                                           item_answer = answer_text,
                                           item_contexts = map page_content retrieved_contexts_docs,
                                           item_retrieved_document_sources_keys =
                                             map source_key retrieved_contexts_docs,
                                           item_chat_id = chat_id,
                                           item_timestamp = now env,
                                           item_feedback = None\<rparr>]\<rparr>)))))"

subsection \<open>\<open>feedback_callback\<close>\<close>

text \<open>\<open>s.split(sep)\<close> with a one-character separator: one part more than separators.\<close>

fun split_on_from :: "nat \<Rightarrow> ustr \<Rightarrow> ustr \<Rightarrow> ustr list" where
  "split_on_from sep cur [] = [cur]"
| "split_on_from sep cur (c # cs) =
     (if c = sep then cur # split_on_from sep [] cs else split_on_from sep (cur @ [c]) cs)"

definition str_split_on :: "nat \<Rightarrow> ustr \<Rightarrow> ustr list" where
  "str_split_on sep s = split_on_from sep [] s"

record button =
  label :: ustr
  callback_data :: "ustr option"

record callback_query =
  data :: ustr
  message_text :: ustr
  reply_markup :: "button list list option"

text \<open>What the handler sends, in order.\<close>

datatype outbound =
    AnswerCallbackQuery
  | EditMessageText ustr "button list list option"
  | SendMessage ustr

text \<open>Whether \<open>query.answer\<close>, \<open>query.edit_message_text\<close> and \<open>bot.send_message\<close> raise.\<close>

record telegram_api =
  answer_raises :: bool
  edit_raises :: bool
  send_raises :: bool

definition feedback_error_text :: ustr where
  "feedback_error_text = py_str ''Error: Could not process feedback.''"

definition confirm_text_for :: "bool \<Rightarrow> ustr \<Rightarrow> ustr" where
  "confirm_text_for feedback_recorded sentiment =
     (if \<not> feedback_recorded then py_str ''Sorry, couldn't record feedback for this message.''
      else if sentiment = py_str ''positive''
      then py_str ''Thanks for your feedback! '' @ [0x1F44D]
      else py_str ''Thanks for your feedback. We'll use this to improve. '' @ [0x1F44E])"

text \<open>
  \<open>for item in ragas_data_pool: if item.get('interaction_id') == interaction_id: ...; break\<close>
\<close>

fun set_pool_feedback :: "ustr \<Rightarrow> ustr \<Rightarrow> ragas_item list \<Rightarrow> ragas_item list" where
  "set_pool_feedback interaction_id sentiment [] = []"
| "set_pool_feedback interaction_id sentiment (item # pool) =
     (if item_interaction_id item = interaction_id
      then item\<lparr>item_feedback := Some sentiment\<rparr> # pool
      else item # set_pool_feedback interaction_id sentiment pool)"

definition surviving_button :: "button \<Rightarrow> bool" where
  "surviving_button btn =
     (case callback_data btn of
        None \<Rightarrow> False
      | Some d \<Rightarrow> d \<noteq> [] \<and> (starts_with d (py_str ''sources_'') \<or> d = py_str ''action_show_help''))"

definition new_keyboard_layout :: "button list list option \<Rightarrow> button list list" where
  "new_keyboard_layout markup =
     filter (\<lambda>row. row \<noteq> [])
       (map (filter surviving_button) (case markup of None \<Rightarrow> [] | Some rows \<Rightarrow> rows))"

text \<open>
  The handler returns what it sent, or the exception that leaves it, and the state. The
  unpacking \<open>_, sentiment, interaction_id = query.data.split('_')\<close> raises \<open>ValueError\<close>
  unless the payload has exactly three parts; the \<open>except ValueError\<close> clause is the last
  branch of the \<open>case\<close>.
\<close>

definition feedback_callback ::
  "telegram_api \<Rightarrow> bot_state \<Rightarrow> chat_id \<Rightarrow> callback_query \<Rightarrow> (py_exc + outbound list) \<times> bot_state" where
  "feedback_callback tg st chat_id query =
     (if answer_raises tg then (Inl TelegramError, st)
      else
        (case str_split_on 0x5F (data query) of
           [unused, sentiment, interaction_id] \<Rightarrow>
             (let recorded =
                    (case interactions st chat_id of
                       None \<Rightarrow> None
                     | Some table \<Rightarrow>
                         (case table interaction_id of
                            None \<Rightarrow> None
                          | Some entry \<Rightarrow>
                              Some (st\<lparr>interactions := (interactions st)
                                        (chat_id := Some (table(interaction_id \<mapsto>
                                           entry\<lparr>feedback := Some sentiment\<rparr>))),
                                      ragas_data_pool :=
                                        set_pool_feedback interaction_id sentiment
                                          (ragas_data_pool st)\<rparr>)));
                  feedback_recorded = (recorded \<noteq> None);
                  st' = (case recorded of None \<Rightarrow> st | Some s \<Rightarrow> s);
                  confirm_text = confirm_text_for feedback_recorded sentiment;
                  layout = new_keyboard_layout (reply_markup query);
                  new_reply_markup = (if layout \<noteq> [] then Some layout else None)
              in if \<not> edit_raises tg
                 then (Inr [AnswerCallbackQuery,
                            EditMessageText
                              (message_text query @ [0x5C, 0x6E, 0x5C, 0x6E, 0x5F] @ confirm_text @ [0x5F])
                              new_reply_markup], st')
                 else if \<not> send_raises tg
                 then (Inr [AnswerCallbackQuery, SendMessage confirm_text], st')
                 else (Inl TelegramError, st'))
         | _ \<Rightarrow>
             if edit_raises tg then (Inl TelegramError, st)
             else (Inr [AnswerCallbackQuery, EditMessageText feedback_error_text None], st)))"

subsection \<open>Runs of the bot\<close>

text \<open>
  The updates that change the shared state, each with the behaviour of the services
  during its handling, and the state after a sequence of updates.
\<close>

datatype update =
    StartCommand chat_id
  | TextMessage turn_env chat_id ustr
  | FeedbackPressed telegram_api chat_id callback_query

fun handle_update :: "bot_state \<Rightarrow> update \<Rightarrow> bot_state" where
  "handle_update st (StartCommand c) = start_command st c"
| "handle_update st (TextMessage env c text) = handle_text_message env st c text"
| "handle_update st (FeedbackPressed tg c query) = snd (feedback_callback tg st c query)"

definition run_bot :: "bot_state \<Rightarrow> update list \<Rightarrow> bot_state" where
  "run_bot st updates = foldl handle_update st updates"


section \<open>Unicode tables: facts\<close>

lemma lower_cp_cases:
  "lower_cp c = c
   \<or> (lower_cp c = c + 32
        \<and> ((0x41 \<le> c \<and> c \<le> 0x5A) \<or> (0xC0 \<le> c \<and> c \<le> 0xDE) \<or> (0x410 \<le> c \<and> c \<le> 0x42F)))
   \<or> (lower_cp c = c + 80 \<and> 0x400 \<le> c \<and> c \<le> 0x40F)
   \<or> (lower_cp c = 0x4CF \<and> c = 0x4C0)
   \<or> (lower_cp c = c + 1 \<and> 0x460 \<le> c \<and> c \<le> 0x52F)"
  unfolding lower_cp_def by (simp split: if_splits)

lemma isspace_lower_cp [simp]: "isspace_cp (lower_cp c) = isspace_cp c"
  using lower_cp_cases [of c]
  by (elim disjE conjE; simp add: isspace_cp_def)

lemma lower_cp_small_letter: "0x430 \<le> c \<Longrightarrow> c \<le> 0x45F \<Longrightarrow> lower_cp c = c"
  by (simp add: lower_cp_def)

lemma lower_cp_capital_letter: "0x410 \<le> c \<Longrightarrow> c \<le> 0x42F \<Longrightarrow> lower_cp c = c + 32"
  by (simp add: lower_cp_def)

lemma lower_cp_capital_io: "lower_cp 0x401 = 0x451"
  by (simp add: lower_cp_def)


section \<open>Language detection: results\<close>

lemma russian_alphabet_range:
  "x \<in> set russian_alphabet \<longleftrightarrow> (0x430 \<le> x \<and> x \<le> 0x44F) \<or> x = 0x451"
proof
  assume "x \<in> set russian_alphabet"
  then show "(0x430 \<le> x \<and> x \<le> 0x44F) \<or> x = 0x451"
    unfolding russian_alphabet_def by (elim set_ConsD[elim_format] disjE; simp)
next
  assume range: "(0x430 \<le> x \<and> x \<le> 0x44F) \<or> x = 0x451"
  have listed: "set [0x430..<0x450] \<subseteq> set russian_alphabet"
    unfolding russian_alphabet_def by simp
  from range have "x \<in> {0x430..<0x450} \<or> x = 0x451" by auto
  then have "x \<in> set [0x430..<0x450] \<or> x = 0x451"
    unfolding atLeastLessThan_upt .
  moreover have "0x451 \<in> set russian_alphabet"
    unfolding russian_alphabet_def by simp
  ultimately show "x \<in> set russian_alphabet"
    using listed by blast
qed

lemma lower_cp_russian: "lower_cp c \<in> set russian_alphabet \<longleftrightarrow> russian_letter c"
proof
  assume "russian_letter c"
  then consider "0x410 \<le> c" "c \<le> 0x42F" | "0x430 \<le> c" "c \<le> 0x44F" | "c = 0x401" | "c = 0x451"
    unfolding russian_letter_def by linarith
  then show "lower_cp c \<in> set russian_alphabet"
    by cases
      (simp_all add: lower_cp_capital_letter lower_cp_small_letter lower_cp_capital_io
         russian_alphabet_range)
next
  assume "lower_cp c \<in> set russian_alphabet"
  then have lowered: "(0x430 \<le> lower_cp c \<and> lower_cp c \<le> 0x44F) \<or> lower_cp c = 0x451"
    by (simp only: russian_alphabet_range)
  from lower_cp_cases [of c] lowered show "russian_letter c"
    unfolding russian_letter_def by (elim disjE conjE; simp)
qed

lemma is_russian_iff: "is_russian q \<longleftrightarrow> (\<exists>c \<in> set q. russian_letter c)"
  by (simp add: is_russian_def str_lower_def list_ex_iff lower_cp_russian)

lemma russian_letter_cyrillic: "russian_letter c \<Longrightarrow> cyrillic_cp c"
  unfolding russian_letter_def cyrillic_cp_def by linarith

text \<open>
  C7, as amended. A query is classified as Russian exactly when it contains a letter of
  the Russian alphabet, capital or small; in particular a query without any Cyrillic
  character is classified as non-Russian. (A Cyrillic letter outside the Russian
  alphabet does not make a query Russian.)
\<close>

theorem language_detection_russian_letters:
  "(is_russian q \<longleftrightarrow> (\<exists>c \<in> set q. russian_letter c))
   \<and> ((\<forall>c \<in> set q. \<not> cyrillic_cp c) \<longrightarrow> \<not> is_russian q)"
  using is_russian_iff [of q] russian_letter_cyrillic by blast

theorem language_detection_russian_letters_witness:
  "list_all (\<lambda>c. \<not> cyrillic_cp c) (py_str ''exam'') \<and> \<not> is_russian (py_str ''exam'')
   \<and> russian_letter 0x41C \<and> is_russian [0x41C, 0x41B]"
proof -
  have latin: "\<forall>c \<in> set (py_str ''exam''). \<not> cyrillic_cp c"
    by (simp add: py_str_def cyrillic_cp_def)
  have capital: "russian_letter 0x41C"
    by (simp add: russian_letter_def)
  from latin language_detection_russian_letters [of "py_str ''exam''"]
  have "\<not> is_russian (py_str ''exam'')" by blast
  moreover from capital language_detection_russian_letters [of "[0x41C, 0x41B]"]
  have "is_russian [0x41C, 0x41B]" by simp
  ultimately show ?thesis using latin capital by (simp add: list_all_iff)
qed

text \<open>
  C7 as stated fails: U+0456, the Ukrainian and Belarusian letter i, is a Cyrillic
  letter, and the query that consists of it is classified as non-Russian.
\<close>

theorem language_detection_counterexample:
  "cyrillic_cp 0x456 \<and> 0x456 \<in> set [0x456] \<and> \<not> is_russian [0x456]"
  by (simp add: cyrillic_cp_def is_russian_def str_lower_def lower_cp_def russian_alphabet_def)


section \<open>Credential loading: results\<close>





section \<open>Hybrid retriever: results\<close>

lemma hybrid_flag_force_hybrid [simp]: "hybrid_flag (force_hybrid vs) = True"
  by (simp add: force_hybrid_def hybrid_flag_def split: option.splits)

lemma searches_force_hybrid [simp]:
  "similarity_search_with_score (force_hybrid vs) = similarity_search_with_score vs"
  "asimilarity_search_with_score (force_hybrid vs) = asimilarity_search_with_score vs"
  by (simp_all add: force_hybrid_def)

lemma except_Exception_raised:
  "is_Exception e \<Longrightarrow> except_Exception (strip_scores (Inl e)) = Inr []"
  by (simp add: except_Exception_def strip_scores_def)

text \<open>
  C2. When the search that an entry point calls raises an exception (an instance of
  \<open>Exception\<close>), \<open>_get_relevant_documents\<close> and \<open>_aget_relevant_documents\<close> both return the
  empty list, nothing is raised to the caller, and both leave the retriever in the same
  state. The blocking search is the one of the store; the non-blocking entry point
  calls the store's coroutine when it has one and the blocking search otherwise.
\<close>

theorem retriever_failure_returns_empty:
  assumes "similarity_search_with_score (vectorstore self) True query (k self) (search_kwargs self)
             = Inl e"
    and "is_Exception e"
    and "\<forall>asearch. asimilarity_search_with_score (vectorstore self) = Some asearch
           \<longrightarrow> (\<exists>e'. asearch True query (k self) (search_kwargs self) = Inl e' \<and> is_Exception e')"
  shows "fst (get_relevant_documents self query) = Inr []
         \<and> fst (aget_relevant_documents self query) = Inr []
         \<and> snd (get_relevant_documents self query) = snd (aget_relevant_documents self query)"
proof -
  have blocking: "fst (get_relevant_documents self query) = Inr []"
    using assms(1,2) by (simp add: get_relevant_documents_def Let_def except_Exception_raised)
  have non_blocking: "fst (aget_relevant_documents self query) = Inr []"
  proof (cases "asimilarity_search_with_score (vectorstore self)")
    case None
    with assms(1,2) show ?thesis
      by (simp add: aget_relevant_documents_def Let_def except_Exception_raised)
  next
    case (Some asearch)
    with assms(3) obtain e' where
      "asearch True query (k self) (search_kwargs self) = Inl e'" "is_Exception e'"
      by blast
    with Some show ?thesis
      by (simp add: aget_relevant_documents_def Let_def except_Exception_raised)
  qed
  have "snd (get_relevant_documents self query) = snd (aget_relevant_documents self query)"
    by (simp add: get_relevant_documents_def aget_relevant_documents_def Let_def)
  with blocking non_blocking show ?thesis by simp
qed

theorem retriever_failure_returns_empty_witness:
  "fst (get_relevant_documents
          \<lparr>vectorstore = \<lparr>is_hybrid_search = None,
                          similarity_search_with_score =
                            (\<lambda>h q n kw. Inl ConnectionError :: py_exc + (document \<times> nat) list),
                          asimilarity_search_with_score = None\<rparr>,
           k = 5, search_kwargs = default_search_kwargs\<rparr>
          (py_str ''exam schedule'')) = Inr []
   \<and> fst (aget_relevant_documents
          \<lparr>vectorstore = \<lparr>is_hybrid_search = None,
                          similarity_search_with_score =
                            (\<lambda>h q n kw. Inl ConnectionError :: py_exc + (document \<times> nat) list),
                          asimilarity_search_with_score = None\<rparr>,
           k = 5, search_kwargs = default_search_kwargs\<rparr>
          (py_str ''exam schedule'')) = Inr []
   \<and> fst (aget_relevant_documents
          \<lparr>vectorstore = \<lparr>is_hybrid_search = Some True,
                          similarity_search_with_score =
                            (\<lambda>h q n kw. Inl ConnectionError :: py_exc + (document \<times> nat) list),
                          asimilarity_search_with_score = Some (\<lambda>h q n kw. Inl ValueError)\<rparr>,
           k = 5, search_kwargs = default_search_kwargs\<rparr>
          (py_str ''exam schedule'')) = Inr []"
proof -
  let ?blocking = "\<lparr>vectorstore = \<lparr>is_hybrid_search = None,
                          similarity_search_with_score =
                            (\<lambda>h q n kw. Inl ConnectionError :: py_exc + (document \<times> nat) list),
                          asimilarity_search_with_score = None\<rparr>,
           k = 5, search_kwargs = default_search_kwargs\<rparr>"
  let ?coroutine = "\<lparr>vectorstore = \<lparr>is_hybrid_search = Some True,
                          similarity_search_with_score =
                            (\<lambda>h q n kw. Inl ConnectionError :: py_exc + (document \<times> nat) list),
                          asimilarity_search_with_score = Some (\<lambda>h q n kw. Inl ValueError)\<rparr>,
           k = 5, search_kwargs = default_search_kwargs\<rparr>"
  have caught: "is_Exception ConnectionError" "is_Exception ValueError"
    by (simp_all add: is_Exception_def)
  have raised: "similarity_search_with_score (vectorstore ?blocking) True
                  (py_str ''exam schedule'') (k ?blocking) (search_kwargs ?blocking)
                = Inl ConnectionError"
    by simp
  have no_coroutine:
    "\<forall>asearch. asimilarity_search_with_score (vectorstore ?blocking) = Some asearch
       \<longrightarrow> (\<exists>e'. asearch True (py_str ''exam schedule'') (k ?blocking) (search_kwargs ?blocking)
                  = Inl e' \<and> is_Exception e')"
    by simp
  have raised': "similarity_search_with_score (vectorstore ?coroutine) True
                  (py_str ''exam schedule'') (k ?coroutine) (search_kwargs ?coroutine)
                = Inl ConnectionError"
    by simp
  have coroutine_raises:
    "\<forall>asearch. asimilarity_search_with_score (vectorstore ?coroutine) = Some asearch
       \<longrightarrow> (\<exists>e'. asearch True (py_str ''exam schedule'') (k ?coroutine) (search_kwargs ?coroutine)
                  = Inl e' \<and> is_Exception e')"
    using caught(2) by auto
  from retriever_failure_returns_empty [OF raised caught(1) no_coroutine]
    retriever_failure_returns_empty [OF raised' caught(1) coroutine_raises]
  show ?thesis by blast
qed


section \<open>Answer prompt: results\<close>




section \<open>Chat history: results\<close>

lemma length_last_n: "length (last_n n xs) \<le> n"
  by (simp add: last_n_def)

lemma start_command_bounded:
  assumes "\<forall>c h. user_chat_histories st c = Some h \<longrightarrow> length h \<le> 20"
  shows "\<forall>c h. user_chat_histories (start_command st chat) c = Some h \<longrightarrow> length h \<le> 20"
  using assms by (simp add: start_command_def)

lemma handle_text_message_histories:
  "user_chat_histories (handle_text_message env st chat msg) = user_chat_histories st
   \<or> (user_chat_histories st chat = None
       \<and> user_chat_histories (handle_text_message env st chat msg)
           = (user_chat_histories st)(chat \<mapsto> []))
   \<or> (\<exists>h. user_chat_histories (handle_text_message env st chat msg)
           = (user_chat_histories st)(chat \<mapsto> last_n 20 h))"
proof (cases "rag_chain env")
  case None
  then show ?thesis by (simp add: handle_text_message_def)
next
  case (Some chain)
  then have available: "rag_chain env = Some chain" .
  show ?thesis
  proof (cases "user_chat_histories st chat")
    case None
    with available show ?thesis
      by (auto simp: handle_text_message_def Let_def split: rag_result.splits)
  next
    case (Some h)
    with available show ?thesis
      by (auto simp: handle_text_message_def Let_def split: rag_result.splits)
  qed
qed

lemma handle_text_message_bounded:
  assumes "\<forall>c h. user_chat_histories st c = Some h \<longrightarrow> length h \<le> 20"
  shows "\<forall>c h. user_chat_histories (handle_text_message env st chat msg) c = Some h
           \<longrightarrow> length h \<le> 20"
  using handle_text_message_histories [of env st chat msg] assms
  by (elim disjE exE conjE) (auto simp: length_last_n)

lemma feedback_callback_histories:
  "user_chat_histories (snd (feedback_callback tg st chat query)) = user_chat_histories st"
  by (simp add: feedback_callback_def Let_def split: list.splits option.splits)

lemma handle_update_bounded:
  assumes "\<forall>c h. user_chat_histories st c = Some h \<longrightarrow> length h \<le> 20"
  shows "\<forall>c h. user_chat_histories (handle_update st u) c = Some h \<longrightarrow> length h \<le> 20"
proof (cases u)
  case (StartCommand chat)
  with start_command_bounded [OF assms] show ?thesis by simp
next
  case (TextMessage env chat msg)
  with handle_text_message_bounded [OF assms] show ?thesis by simp
next
  case (FeedbackPressed tg chat query)
  with assms show ?thesis by (simp add: feedback_callback_histories)
qed

lemma run_bot_bounded:
  assumes "\<forall>c h. user_chat_histories st c = Some h \<longrightarrow> length h \<le> 20"
  shows "\<forall>c h. user_chat_histories (run_bot st updates) c = Some h \<longrightarrow> length h \<le> 20"
  using assms unfolding run_bot_def
proof (induction updates arbitrary: st)
  case Nil
  then show ?case by simp
next
  case (Cons u updates)
  from Cons.IH [OF handle_update_bounded [OF Cons.prems]] show ?case by simp
qed

text \<open>
  C3. Whatever updates the bot handles from its start (commands, text messages that are
  answered or that fail, feedback buttons), in any number and for any chats, the history
  retained for a chat never has more than 20 messages. The property holds after every
  update, since every prefix of a run is a run.
\<close>

theorem chat_history_at_most_20:
  "user_chat_histories (run_bot initial_state updates) chat = Some history
   \<Longrightarrow> length history \<le> 20"
  using run_bot_bounded [of initial_state updates] by (simp add: initial_state_def)

theorem chat_history_at_most_20_witness:
  "user_chat_histories (run_bot initial_state (replicate 11 (TextMessage
      \<lparr>rag_chain = Some (\<lambda>q h. RagResponse (Some (py_str ''ok'')) []),
       llm = \<lparr>llm_initialized = False, completion = (\<lambda>p. RequestException)\<rparr>,
       synonyms = SYNONYM_MAP, set_order = (\<lambda>xs. xs),
       new_interaction_id = py_str ''id'', now = py_str ''t'', new_message_id = 1,
       delivery = Delivered\<rparr> 7 (py_str ''hi'')))) 7
   = Some (concat (replicate 10 [HumanMessage (py_str ''hi''), AIMessage (py_str ''ok'')]))
   \<and> length (concat (replicate 10 [HumanMessage (py_str ''hi''), AIMessage (py_str ''ok'')])) \<le> 20"
proof -
  let ?env = "\<lparr>rag_chain = Some (\<lambda>q h. RagResponse (Some (py_str ''ok'')) []),
       llm = \<lparr>llm_initialized = False, completion = (\<lambda>p. RequestException)\<rparr>,
       synonyms = SYNONYM_MAP, set_order = (\<lambda>xs. xs),
       new_interaction_id = py_str ''id'', now = py_str ''t'', new_message_id = 1,
       delivery = Delivered\<rparr>"
  have run: "user_chat_histories
        (run_bot initial_state (replicate 11 (TextMessage ?env 7 (py_str ''hi'')))) 7
      = Some (concat (replicate 10 [HumanMessage (py_str ''hi''), AIMessage (py_str ''ok'')]))"
    unfolding run_bot_def
    apply (simp add: numeral_eq_Suc initial_state_def)
    apply (simp add: handle_text_message_def Let_def preprocess_query_for_retrieval_def
        last_n_def)
    done
  from chat_history_at_most_20 [OF run] run show ?thesis by blast
qed


section \<open>Feedback buttons: results\<close>





section \<open>Strings: facts\<close>

subsection \<open>Splitting at whitespace\<close>

lemma split_from_space:
  "isspace_cp c \<Longrightarrow> split_from cur (a @ c # b) = split_from cur a @ split_from [] b"
  by (induction a arbitrary: cur) simp_all

lemma split_from_word:
  "\<forall>c \<in> set s. \<not> isspace_cp c \<Longrightarrow> split_from cur s = (if cur @ s = [] then [] else [cur @ s])"
  by (induction s arbitrary: cur) simp_all

lemma str_split_space:
  "isspace_cp c \<Longrightarrow> str_split (a @ c # b) = str_split a @ str_split b"
  by (simp add: str_split_def split_from_space)

lemma str_split_word:
  "s \<noteq> [] \<Longrightarrow> \<forall>c \<in> set s. \<not> isspace_cp c \<Longrightarrow> str_split s = [s]"
  by (simp add: str_split_def split_from_word)

lemma split_from_lower:
  "split_from (map lower_cp cur) (map lower_cp s) = map (map lower_cp) (split_from cur s)"
proof (induction s arbitrary: cur)
  case Nil
  then show ?case by simp
next
  case (Cons c s)
  from Cons [of "[]"] Cons [of "cur @ [c]"] show ?case by simp
qed

lemma str_split_lower: "str_split (str_lower s) = map str_lower (str_split s)"
  using split_from_lower [of "[]" s] by (simp add: str_split_def str_lower_def)

lemma isspace_space [simp]: "isspace_cp 0x20"
  by (simp add: isspace_cp_def)

lemma not_isspace_comma [simp]: "\<not> isspace_cp 0x2C"
  by (simp add: isspace_cp_def)

lemma word_in_split_join:
  assumes "s \<in> set xs" "s \<noteq> []" "\<forall>c \<in> set s. \<not> isspace_cp c"
  shows "s \<in> set (str_split (str_join [0x20] xs))"
  using assms(1)
proof (induction "[0x20::nat]" xs rule: str_join.induct)
  case 1
  then show ?case by simp
next
  case (2 x)
  with assms(2,3) show ?case by (simp add: str_split_word)
next
  case (3 x y ys)
  have "str_split (str_join [0x20] (x # y # ys))
          = str_split x @ str_split (str_join [0x20] (y # ys))"
    using str_split_space [of "0x20" x] by simp
  moreover have "s = x \<Longrightarrow> s \<in> set (str_split x)"
    using assms(2,3) by (simp add: str_split_word)
  ultimately show ?case using 3 by auto
qed

subsection \<open>Stripping\<close>

lemma str_strip_empty_iff: "str_strip s = [] \<longleftrightarrow> (\<forall>c \<in> set s. isspace_cp c)"
proof
  assume "str_strip s = []"
  then have "dropWhile isspace_cp (rev (dropWhile isspace_cp s)) = []"
    by (simp add: str_strip_def)
  then have "\<forall>c \<in> set (dropWhile isspace_cp s). isspace_cp c"
    by (simp add: dropWhile_eq_Nil_conv)
  then have "dropWhile isspace_cp s = []"
    by (metis hd_dropWhile list.set_sel(1))
  then show "\<forall>c \<in> set s. isspace_cp c"
    by (simp add: dropWhile_eq_Nil_conv)
next
  assume "\<forall>c \<in> set s. isspace_cp c"
  then have "dropWhile isspace_cp s = []"
    by (simp add: dropWhile_eq_Nil_conv)
  then show "str_strip s = []"
    unfolding str_strip_def by (simp only: rev.simps dropWhile.simps)
qed

lemma str_strip_prefix_blank: "str_strip (a @ b) = [] \<Longrightarrow> str_strip a = []"
  by (simp add: str_strip_empty_iff)

lemma str_strip_ends:
  "s \<noteq> [] \<Longrightarrow> \<not> isspace_cp (hd s) \<Longrightarrow> \<not> isspace_cp (last s) \<Longrightarrow> str_strip s = s"
proof -
  assume nonempty: "s \<noteq> []" and first: "\<not> isspace_cp (hd s)" and final: "\<not> isspace_cp (last s)"
  from nonempty first have "dropWhile isspace_cp s = s"
    by (cases s) simp_all
  moreover from nonempty final have "dropWhile isspace_cp (rev s) = rev s"
    by (cases "rev s") (simp_all add: last_rev [symmetric] hd_rev)
  ultimately show ?thesis by (simp add: str_strip_def)
qed

lemma str_strip_result:
  assumes "str_strip t \<noteq> []"
  shows "\<not> isspace_cp (hd (str_strip t)) \<and> \<not> isspace_cp (last (str_strip t))"
proof -
  define d where "d = dropWhile isspace_cp t"
  define i where "i = dropWhile isspace_cp (rev d)"
  have stripped: "str_strip t = rev i"
    by (simp add: str_strip_def i_def d_def)
  with assms have inner: "i \<noteq> []"
    by simp
  then have "\<not> isspace_cp (hd i)"
    unfolding i_def by (rule hd_dropWhile)
  with inner have final: "\<not> isspace_cp (last (rev i))"
    by (simp add: last_rev)
  have "d \<noteq> []"
  proof
    assume "d = []"
    then have "i = []" unfolding i_def by (simp only: rev.simps dropWhile.simps)
    with inner show False ..
  qed
  then have start: "\<not> isspace_cp (hd d)"
    unfolding d_def by (rule hd_dropWhile)
  have "rev d = takeWhile isspace_cp (rev d) @ i"
    unfolding i_def by (simp only: takeWhile_dropWhile_id)
  then have "rev (rev d) = rev (takeWhile isspace_cp (rev d) @ i)"
    by (rule arg_cong)
  then have "d = rev i @ rev (takeWhile isspace_cp (rev d))"
    by (simp only: rev_rev_ident rev_append)
  then have "hd d = hd (rev i @ rev (takeWhile isspace_cp (rev d)))"
    by (rule arg_cong)
  also have "\<dots> = hd (rev i)"
    using inner by (simp only: hd_append2 rev_is_Nil_conv not_False_eq_True)
  finally have "hd d = hd (rev i)" .
  with start final show ?thesis
    by (simp only: stripped simp_thms)
qed

lemma str_strip_before_translation:
  assumes "str_strip t \<noteq> []"
  shows "str_strip (a @ [0x2C, 0x20] @ str_strip t)
           = dropWhile isspace_cp a @ [0x2C, 0x20] @ str_strip t"
proof -
  let ?tail = "[0x2C, 0x20] @ str_strip t"
  have front: "dropWhile isspace_cp (a @ ?tail) = dropWhile isspace_cp a @ ?tail"
    by (induction a) simp_all
  from assms str_strip_result [OF assms]
  have rear: "dropWhile isspace_cp (rev (dropWhile isspace_cp a @ ?tail))
                = rev (dropWhile isspace_cp a @ ?tail)"
    by (cases "str_strip t" rule: rev_cases) simp_all
  show ?thesis
    unfolding str_strip_def [of "a @ [0x2C, 0x20] @ str_strip t"] front rear by simp
qed


section \<open>Synonym expansion: results\<close>

subsection \<open>The loops and the specification's account\<close>

lemma keep_new_append:
  "keep_new present (xs @ ys) kept = keep_new present ys (keep_new present xs kept)"
  by (induction xs arbitrary: kept) simp_all

lemma add_synonyms_keep_new:
  "add_synonyms present syns appended = keep_new present syns appended"
proof (induction syns arbitrary: appended)
  case Nil
  then show ?case by simp
next
  case (Cons syn syns)
  have "str_lower syn \<notin> set (map str_lower appended) \<Longrightarrow> syn \<notin> set appended"
    by auto
  then show ?case
    by (simp add: Cons.IH set_add_def)
qed

lemma scan_synonym_map_keep_new:
  "scan_synonym_map present cleaned m appended
     = keep_new present
         (concat (map snd (filter (\<lambda>item. str_lower (fst item) = cleaned) m))) appended"
proof (induction m arbitrary: appended)
  case Nil
  then show ?case by simp
next
  case (Cons item m)
  obtain map_key syn_list where item: "item = (map_key, syn_list)"
    by (cases item)
  show ?case
    by (simp add: item Cons.IH add_synonyms_keep_new keep_new_append)
qed

lemma scan_tokens_keep_new:
  "scan_tokens m present tokens appended
     = keep_new present
         (concat (map (\<lambda>token.
            concat (map snd (filter (\<lambda>item. str_lower (fst item) = cleaned_token_lower token) m)))
          tokens)) appended"
  by (induction tokens arbitrary: appended)
    (simp_all add: scan_synonym_map_keep_new keep_new_append)

lemma appended_synonyms_spec: "appended_synonyms m q = spec_appended m q"
  by (simp add: appended_synonyms_def spec_appended_def encountered_synonyms_def
      scan_tokens_keep_new)


lemma keep_new_origin:
  "s \<in> set (keep_new present xs kept)
   \<Longrightarrow> s \<in> set kept \<or> (s \<in> set xs \<and> str_lower s \<notin> set present)"
proof (induction xs arbitrary: kept)
  case Nil
  then show ?case by simp
next
  case (Cons x xs)
  from Cons.IH [OF Cons.prems [simplified]] show ?case
    by (auto split: if_splits)
qed



lemma scan_tokens_no_table: "scan_tokens [] present tokens appended = appended"
  by (induction tokens arbitrary: appended) simp_all

lemma appended_synonyms_no_table [simp]: "appended_synonyms [] q = []"
  by (simp add: appended_synonyms_def scan_tokens_no_table)


lemmas expansion_eval =
  SYNONYM_MAP_def py_str_def str_lower_def lower_cp_def isalnum_cp_def isspace_cp_def
  str_split_def appended_synonyms_def cleaned_token_lower_def set_add_def
  synonym_expansion_def expanded_primary_query_def




subsection \<open>A second pass\<close>

text \<open>
  C1, as amended. A pass of the expansion step never appends a synonym that equals,
  in lower case, a whitespace-delimited token of the query. A second pass over the
  output of the first therefore never appends again a synonym of the first pass that
  is a single word (non-empty, without whitespace), in whatever order the first pass
  wrote its synonyms. (Synonyms of several words, and synonyms of the words that the
  first pass added, are outside this statement.)
\<close>

theorem synonym_expansion_second_pass:
  "(\<forall>s \<in> set (appended_synonyms m q). \<forall>t \<in> set (str_split q). str_lower t \<noteq> str_lower s)
   \<and> (iteration_order ord (appended_synonyms m q)
        \<longrightarrow> (\<forall>s \<in> set (appended_synonyms m q).
               s \<noteq> [] \<and> (\<forall>c \<in> set s. \<not> isspace_cp c)
               \<longrightarrow> str_lower s
                     \<notin> set (map str_lower (appended_synonyms m (synonym_expansion m ord q)))))"
proof -
  have absent: "str_lower s \<notin> set (map str_lower (str_split x))"
    if "s \<in> set (appended_synonyms m x)" for s x
    using keep_new_origin [of s "str_split (str_lower x)" "encountered_synonyms m x" "[]"] that
    by (simp add: appended_synonyms_spec spec_appended_def str_split_lower)
  have first: "\<forall>s \<in> set (appended_synonyms m q). \<forall>t \<in> set (str_split q).
      str_lower t \<noteq> str_lower s"
  proof (intro ballI)
    fix s t
    assume "s \<in> set (appended_synonyms m q)" and token: "t \<in> set (str_split q)"
    from absent [OF this(1)] have "str_lower s \<notin> str_lower ` set (str_split q)"
      by simp
    with token show "str_lower t \<noteq> str_lower s"
      by (metis image_eqI)
  qed
  have second: "str_lower s
      \<notin> set (map str_lower (appended_synonyms m (synonym_expansion m ord q)))"
    if rearranged: "iteration_order ord (appended_synonyms m q)"
      and member: "s \<in> set (appended_synonyms m q)"
      and word: "s \<noteq> []" "\<forall>c \<in> set s. \<not> isspace_cp c" for s
  proof
    let ?out = "synonym_expansion m ord q"
    assume "str_lower s \<in> set (map str_lower (appended_synonyms m ?out))"
    then obtain s' where again: "s' \<in> set (appended_synonyms m ?out)"
      and same: "str_lower s' = str_lower s"
      by auto
    from member have some: "appended_synonyms m q \<noteq> []" by auto
    then have "m \<noteq> []" by auto
    with some have out: "?out = q @ [0x20] @ str_join [0x20] (ord (appended_synonyms m q))"
      by (simp add: synonym_expansion_def expanded_primary_query_def)
    from rearranged member have "s \<in> set (ord (appended_synonyms m q))"
      unfolding iteration_order_def by (metis set_mset_mset)
    from word_in_split_join [OF this word]
    have "s \<in> set (str_split ?out)"
      unfolding out using str_split_space [of "0x20" q] by simp
    then have "str_lower s' \<in> set (map str_lower (str_split ?out))"
      unfolding same by simp
    with absent [OF again] show False ..
  qed
  from first second show ?thesis by blast
qed

lemma exam_appended:
  "appended_synonyms SYNONYM_MAP (py_str ''exam'')
     = [py_str ''examination'', py_str ''test'', py_str ''assessment'',
        [0x44D, 0x43A, 0x437, 0x430, 0x43C, 0x435, 0x43D], [0x442, 0x435, 0x441, 0x442]]"
  by (simp add: expansion_eval)

theorem synonym_expansion_second_pass_witness:
  "py_str ''test'' \<in> set (appended_synonyms SYNONYM_MAP (py_str ''exam''))
   \<and> str_lower (py_str ''test'')
       \<notin> set (map str_lower
            (appended_synonyms SYNONYM_MAP
               (synonym_expansion SYNONYM_MAP rev (py_str ''exam''))))
   \<and> str_lower (py_str ''exam'') \<noteq> str_lower (py_str ''test'')"
proof -
  have rearranged: "iteration_order rev (appended_synonyms SYNONYM_MAP (py_str ''exam''))"
    by (simp add: iteration_order_def)
  have member: "py_str ''test'' \<in> set (appended_synonyms SYNONYM_MAP (py_str ''exam''))"
    unfolding exam_appended by (simp add: py_str_def)
  have word: "py_str ''test'' \<noteq> [] \<and> (\<forall>c \<in> set (py_str ''test''). \<not> isspace_cp c)"
    by (simp add: py_str_def isspace_cp_def)
  have token: "py_str ''exam'' \<in> set (str_split (py_str ''exam''))"
    by (simp add: py_str_def str_split_def isspace_cp_def)
  from synonym_expansion_second_pass [of SYNONYM_MAP "py_str ''exam''" rev]
    rearranged member word token
  show ?thesis by blast
qed

text \<open>
  C1 as stated fails: the step is not idempotent. With the synonyms written in the
  order of insertion, the first pass turns the query \<open>GSOM\<close> into a query that contains
  the word \<open>SPbU\<close>, and the second pass appends the synonyms of \<open>SPbU\<close>, which the first
  pass did not add (and appends the two synonyms of several words once more).
\<close>

theorem synonym_expansion_idempotence_counterexample:
  "synonym_expansion SYNONYM_MAP (\<lambda>xs. xs) (py_str ''GSOM'')
     = py_str ''GSOM Graduate School of Management GSOM SPbU '' @ [0x412, 0x428, 0x41C]
   \<and> appended_synonyms SYNONYM_MAP (synonym_expansion SYNONYM_MAP (\<lambda>xs. xs) (py_str ''GSOM''))
     = [py_str ''Graduate School of Management'', py_str ''GSOM SPbU'',
        py_str ''Saint Petersburg State University'', [0x421, 0x41F, 0x431, 0x413, 0x423]]
   \<and> synonym_expansion SYNONYM_MAP (\<lambda>xs. xs)
        (synonym_expansion SYNONYM_MAP (\<lambda>xs. xs) (py_str ''GSOM''))
     \<noteq> synonym_expansion SYNONYM_MAP (\<lambda>xs. xs) (py_str ''GSOM'')"
proof -
  have once: "synonym_expansion SYNONYM_MAP (\<lambda>xs. xs) (py_str ''GSOM'')
     = py_str ''GSOM Graduate School of Management GSOM SPbU '' @ [0x412, 0x428, 0x41C]"
    by (simp add: expansion_eval)
  have twice: "appended_synonyms SYNONYM_MAP
       (synonym_expansion SYNONYM_MAP (\<lambda>xs. xs) (py_str ''GSOM''))
     = [py_str ''Graduate School of Management'', py_str ''GSOM SPbU'',
        py_str ''Saint Petersburg State University'', [0x421, 0x41F, 0x431, 0x413, 0x423]]"
    by (simp add: expansion_eval)
  have "synonym_expansion SYNONYM_MAP (\<lambda>xs. xs)
        (synonym_expansion SYNONYM_MAP (\<lambda>xs. xs) (py_str ''GSOM''))
     \<noteq> synonym_expansion SYNONYM_MAP (\<lambda>xs. xs) (py_str ''GSOM'')"
    unfolding synonym_expansion_def [of _ _ "synonym_expansion SYNONYM_MAP (\<lambda>xs. xs) (py_str ''GSOM'')"]
      twice expanded_primary_query_def
    by (simp add: SYNONYM_MAP_def)
  with once twice show ?thesis by blast
qed


section \<open>Composition of the final query: results\<close>

lemma final_query_composed:
  "final_query_for_retrieval svc m ord q
     = with_translation (synonym_expansion m ord q) (translation_of svc q)"
  by (simp add: final_query_for_retrieval_def Let_def synonym_expansion_def translation_of_def)

lemma synonym_expansion_prefix: "\<exists>rest. synonym_expansion m ord q = q @ rest"
  by (simp add: synonym_expansion_def expanded_primary_query_def)

lemma final_query_prefix: "\<exists>rest. final_query_for_retrieval svc m ord q = q @ rest"
proof -
  obtain rest where "synonym_expansion m ord q = q @ rest"
    using synonym_expansion_prefix by blast
  then show ?thesis
    by (simp add: final_query_composed with_translation_def)
qed

lemma translation_of_reply:
  assumes "llm_initialized svc"
  shows "translation_of svc q
           = (case completion svc (translation_request q) of
                MessageText t \<Rightarrow> str_strip t | _ \<Rightarrow> [])"
  using assms
  by (simp add: translation_of_def ask_llm_for_metadata_def translation_request_def
      split: llm_response.splits)

lemma preprocess_stripped:
  assumes "llm_initialized svc"
  shows "preprocess_query_for_retrieval svc m ord q
           = str_strip (final_query_for_retrieval svc m ord q)"
proof (cases "str_strip (final_query_for_retrieval svc m ord q) = []")
  case True
  obtain rest where "final_query_for_retrieval svc m ord q = q @ rest"
    using final_query_prefix by blast
  with True have "str_strip q = []"
    using str_strip_prefix_blank by metis
  with True assms show ?thesis
    by (simp add: preprocess_query_for_retrieval_def Let_def)
next
  case False
  with assms show ?thesis
    by (simp add: preprocess_query_for_retrieval_def Let_def)
qed

text \<open>
  C4, as amended. With an initialised LLM: when the translation call returns text that
  is not blank, the preprocessed query is the primary-language text with the appended
  synonyms, without its leading whitespace, followed by a comma and a space, followed
  by the stripped translation; when the translation is empty, as it is whenever the
  call fails, the preprocessed query is the primary-language text with the appended
  synonyms, stripped of leading and trailing whitespace, with no translated part.
\<close>

theorem preprocessed_query_composition:
  assumes "llm_initialized svc"
  shows "(\<forall>t. completion svc (translation_request q) = MessageText t \<and> str_strip t \<noteq> []
            \<longrightarrow> preprocess_query_for_retrieval svc m ord q
                  = dropWhile isspace_cp (synonym_expansion m ord q) @ [0x2C, 0x20] @ str_strip t)
         \<and> (translation_of svc q = []
              \<longrightarrow> preprocess_query_for_retrieval svc m ord q
                    = str_strip (synonym_expansion m ord q))
         \<and> (completion svc (translation_request q)
                \<in> {RequestException, ParsingError, UnexpectedStructure}
              \<longrightarrow> translation_of svc q = [])"
proof (intro conjI allI impI)
  fix t
  assume "completion svc (translation_request q) = MessageText t \<and> str_strip t \<noteq> []"
  then have reply: "translation_of svc q = str_strip t" and nonblank: "str_strip t \<noteq> []"
    by (simp_all add: translation_of_reply [OF assms])
  from nonblank have "final_query_for_retrieval svc m ord q
      = synonym_expansion m ord q @ [0x2C, 0x20] @ str_strip t"
    by (simp add: final_query_composed reply with_translation_def)
  then show "preprocess_query_for_retrieval svc m ord q
      = dropWhile isspace_cp (synonym_expansion m ord q) @ [0x2C, 0x20] @ str_strip t"
    by (simp only: preprocess_stripped [OF assms] str_strip_before_translation [OF nonblank])
next
  assume "translation_of svc q = []"
  then have "final_query_for_retrieval svc m ord q = synonym_expansion m ord q"
    by (simp add: final_query_composed with_translation_def)
  then show "preprocess_query_for_retrieval svc m ord q = str_strip (synonym_expansion m ord q)"
    by (simp only: preprocess_stripped [OF assms])
next
  assume "completion svc (translation_request q)
            \<in> {RequestException, ParsingError, UnexpectedStructure}"
  then show "translation_of svc q = []"
    by (auto simp: translation_of_reply [OF assms])
qed

theorem preprocessed_query_composition_witness:
  "preprocess_query_for_retrieval
     \<lparr>llm_initialized = True,
      completion = (\<lambda>prompt. MessageText [0x441, 0x440, 0x43E, 0x43A, 0x0A])\<rparr>
     SYNONYM_MAP (\<lambda>xs. xs) (py_str ''deadline'')
   = py_str ''deadline due date submission date, '' @ [0x441, 0x440, 0x43E, 0x43A]
   \<and> preprocess_query_for_retrieval
     \<lparr>llm_initialized = True, completion = (\<lambda>prompt. RequestException)\<rparr>
     SYNONYM_MAP (\<lambda>xs. xs) (py_str ''deadline'')
   = py_str ''deadline due date submission date''"
proof -
  let ?answers = "\<lparr>llm_initialized = True,
      completion = (\<lambda>prompt. MessageText [0x441, 0x440, 0x43E, 0x43A, 0x0A])\<rparr>"
  let ?fails = "\<lparr>llm_initialized = True, completion = (\<lambda>prompt. RequestException)\<rparr>"
  have expanded: "synonym_expansion SYNONYM_MAP (\<lambda>xs. xs) (py_str ''deadline'')
      = py_str ''deadline due date submission date''"
    by (simp add: expansion_eval)
  have stripped: "str_strip [0x441, 0x440, 0x43E, 0x43A, 0x0A] = [0x441, 0x440, 0x43E, 0x43A]"
    by (simp add: str_strip_def isspace_cp_def)
  have "llm_initialized ?answers" by simp
  from preprocessed_query_composition [OF this, of "py_str ''deadline''" SYNONYM_MAP "\<lambda>xs. xs"]
  have "preprocess_query_for_retrieval ?answers SYNONYM_MAP (\<lambda>xs. xs) (py_str ''deadline'')
      = dropWhile isspace_cp (synonym_expansion SYNONYM_MAP (\<lambda>xs. xs) (py_str ''deadline''))
        @ [0x2C, 0x20] @ [0x441, 0x440, 0x43E, 0x43A]"
    by (simp add: stripped)
  then have translated: "preprocess_query_for_retrieval ?answers SYNONYM_MAP (\<lambda>xs. xs)
      (py_str ''deadline'')
      = py_str ''deadline due date submission date, '' @ [0x441, 0x440, 0x43E, 0x43A]"
    unfolding expanded by (simp add: py_str_def isspace_cp_def)
  have "llm_initialized ?fails" by simp
  from preprocessed_query_composition [OF this, of "py_str ''deadline''" SYNONYM_MAP "\<lambda>xs. xs"]
  have "preprocess_query_for_retrieval ?fails SYNONYM_MAP (\<lambda>xs. xs) (py_str ''deadline'')
      = str_strip (synonym_expansion SYNONYM_MAP (\<lambda>xs. xs) (py_str ''deadline''))"
    by simp
  then have "preprocess_query_for_retrieval ?fails SYNONYM_MAP (\<lambda>xs. xs) (py_str ''deadline'')
      = py_str ''deadline due date submission date''"
    unfolding expanded by (simp add: py_str_def str_strip_def isspace_cp_def)
  with translated show ?thesis by blast
qed

text \<open>
  C4 as stated fails for a query with leading whitespace: the result is stripped, so it
  is not the primary-language text followed by the comma and the translation.
\<close>

theorem preprocessed_query_counterexample:
  "translation_of
     \<lparr>llm_initialized = True,
      completion = (\<lambda>prompt. MessageText [0x43F, 0x440, 0x438, 0x432, 0x435, 0x442])\<rparr>
     (py_str '' hi'') = [0x43F, 0x440, 0x438, 0x432, 0x435, 0x442]
   \<and> synonym_expansion SYNONYM_MAP (\<lambda>xs. xs) (py_str '' hi'') = py_str '' hi''
   \<and> preprocess_query_for_retrieval
       \<lparr>llm_initialized = True,
        completion = (\<lambda>prompt. MessageText [0x43F, 0x440, 0x438, 0x432, 0x435, 0x442])\<rparr>
       SYNONYM_MAP (\<lambda>xs. xs) (py_str '' hi'')
     = py_str ''hi, '' @ [0x43F, 0x440, 0x438, 0x432, 0x435, 0x442]
   \<and> preprocess_query_for_retrieval
       \<lparr>llm_initialized = True,
        completion = (\<lambda>prompt. MessageText [0x43F, 0x440, 0x438, 0x432, 0x435, 0x442])\<rparr>
       SYNONYM_MAP (\<lambda>xs. xs) (py_str '' hi'')
     \<noteq> py_str '' hi'' @ [0x2C, 0x20] @ [0x43F, 0x440, 0x438, 0x432, 0x435, 0x442]"
proof -
  let ?svc = "\<lparr>llm_initialized = True,
      completion = (\<lambda>prompt. MessageText [0x43F, 0x440, 0x438, 0x432, 0x435, 0x442])\<rparr>"
  have translated: "translation_of ?svc (py_str '' hi'') = [0x43F, 0x440, 0x438, 0x432, 0x435, 0x442]"
    by (simp add: translation_of_def ask_llm_for_metadata_def str_strip_def isspace_cp_def)
  have expanded: "synonym_expansion SYNONYM_MAP (\<lambda>xs. xs) (py_str '' hi'') = py_str '' hi''"
    by (simp add: expansion_eval)
  have result: "preprocess_query_for_retrieval ?svc SYNONYM_MAP (\<lambda>xs. xs) (py_str '' hi'')
      = py_str ''hi, '' @ [0x43F, 0x440, 0x438, 0x432, 0x435, 0x442]"
    unfolding preprocess_query_for_retrieval_def final_query_composed translated expanded
    by (simp add: with_translation_def py_str_def str_strip_def isspace_cp_def)
  have "preprocess_query_for_retrieval ?svc SYNONYM_MAP (\<lambda>xs. xs) (py_str '' hi'')
      \<noteq> py_str '' hi'' @ [0x2C, 0x20] @ [0x43F, 0x440, 0x438, 0x432, 0x435, 0x442]"
    unfolding result by (simp add: py_str_def)
  with translated expanded result show ?thesis by blast
qed

text \<open>
  C8, as amended. When the composed query is empty or consists of whitespace, the
  function takes the original user text in its place and returns it stripped of
  leading and trailing whitespace; the composed query begins with the user text, so the
  user text is itself blank and the result is the empty string.
\<close>

theorem fallback_returns_stripped_user_text:
  assumes "llm_initialized svc"
    and "str_strip (final_query_for_retrieval svc m ord q) = []"
  shows "preprocess_query_for_retrieval svc m ord q = str_strip q \<and> str_strip q = []"
proof -
  obtain rest where "final_query_for_retrieval svc m ord q = q @ rest"
    using final_query_prefix by blast
  with assms(2) have "str_strip q = []"
    using str_strip_prefix_blank by metis
  with assms show ?thesis
    by (simp add: preprocess_query_for_retrieval_def Let_def)
qed

theorem fallback_returns_stripped_user_text_witness:
  "str_strip (final_query_for_retrieval
       \<lparr>llm_initialized = True, completion = (\<lambda>prompt. RequestException)\<rparr>
       SYNONYM_MAP (\<lambda>xs. xs) [0x20, 0x0A]) = []
   \<and> preprocess_query_for_retrieval
       \<lparr>llm_initialized = True, completion = (\<lambda>prompt. RequestException)\<rparr>
       SYNONYM_MAP (\<lambda>xs. xs) [0x20, 0x0A] = []"
proof -
  let ?svc = "\<lparr>llm_initialized = True, completion = (\<lambda>prompt. RequestException)\<rparr>"
  have ready: "llm_initialized ?svc" by simp
  have blank: "str_strip (final_query_for_retrieval ?svc SYNONYM_MAP (\<lambda>xs. xs) [0x20, 0x0A]) = []"
    by (simp add: final_query_composed translation_of_def ask_llm_for_metadata_def
        with_translation_def expansion_eval str_strip_def)
  from fallback_returns_stripped_user_text [OF ready blank] blank
  show ?thesis by simp
qed

text \<open>
  C8 as stated fails: for the user text that consists of one space, with a translation
  call that fails, the composed query is blank and the function returns the empty
  string, not the user text.
\<close>

theorem fallback_counterexample:
  "str_strip (final_query_for_retrieval
       \<lparr>llm_initialized = True, completion = (\<lambda>prompt. RequestException)\<rparr>
       SYNONYM_MAP (\<lambda>xs. xs) [0x20]) = []
   \<and> preprocess_query_for_retrieval
       \<lparr>llm_initialized = True, completion = (\<lambda>prompt. RequestException)\<rparr>
       SYNONYM_MAP (\<lambda>xs. xs) [0x20] \<noteq> [0x20]"
  by (simp add: preprocess_query_for_retrieval_def final_query_composed translation_of_def
      ask_llm_for_metadata_def with_translation_def expansion_eval str_strip_def)

end
